theory Spec2Isabelle
  imports Complex_Main "HOL-Library.Word"
begin

section \<open>Protocol detection and connection bootstrap of lib/spdy/server.js\<close>

subsection \<open>The prefix sniffer: hoseFilter\<close>

text \<open>
  A Buffer is a list of bytes. The callback of \<open>hoseFilter\<close> takes \<open>(err, protocol)\<close>;
  the model returns the pair it is called with, \<open>None\<close> standing for JavaScript's
  \<open>null\<close>.
\<close>

type_synonym byte = "8 word"

type_synonym callback_args = "string option \<times> string option"

text \<open>
  \<^verbatim>\<open>var PREFACE = 'PRI * HTTP/2.0\r\n\r\nSM\r\n\r\n';\<close>
  \<^verbatim>\<open>var PREFACE_BUFFER = new Buffer(PREFACE);\<close>
  The string is ASCII, so the buffer holds one byte per character.
\<close>

definition PREFACE :: string where
  "PREFACE = ''PRI * HTTP/2.0'' @ [CHR 0x0D, CHR 0x0A, CHR 0x0D, CHR 0x0A] @ ''SM''
               @ [CHR 0x0D, CHR 0x0A, CHR 0x0D, CHR 0x0A]"

definition PREFACE_BUFFER :: "byte list" where
  "PREFACE_BUFFER = map of_char PREFACE"

text \<open>
  The loop of lines 143-145, started at index \<open>i\<close>: \<open>Some args\<close> when the loop body
  returns through the callback, \<open>None\<close> when the loop runs to \<open>avail\<close>.
\<close>

function preface_loop :: "byte list \<Rightarrow> nat \<Rightarrow> nat \<Rightarrow> callback_args option" where
  "preface_loop data avail i =
     (if i < avail then
        (if data ! i \<noteq> PREFACE_BUFFER ! i then Some (None, Some ''http/1.1'')
         else preface_loop data avail (Suc i))
      else None)"
  by pat_completeness auto
termination
  by (relation "measure (\<lambda>(data, avail, i). avail - i)") auto

declare preface_loop.simps [simp del]

definition hoseFilter :: "byte list \<Rightarrow> callback_args" where
  "hoseFilter data =
     (if length data < 1 then (None, None)
      else if data ! 0 = 0x80 then (None, Some ''spdy'')
      else
        (let avail = min (length data) (length PREFACE_BUFFER) in
         case preface_loop data avail 0 of
           Some args \<Rightarrow> args
         | None \<Rightarrow>
             if avail \<noteq> length PREFACE_BUFFER then (None, None)
             else (None, Some ''h2'')))"

subsection \<open>JavaScript values\<close>

text \<open>
  A protocol identifier is a string or one of JavaScript's empty values
  (\<open>undefined\<close>, \<open>null\<close>, \<open>false\<close>), which the code only ever tests for
  truthiness: they are all \<open>None\<close>. The empty string is falsy too.
\<close>

definition truthy :: "string option \<Rightarrow> bool" where
  "truthy p = (case p of None \<Rightarrow> False | Some s \<Rightarrow> s \<noteq> [])"

text \<open>\<^verbatim>\<open>a || b\<close>\<close>

definition js_or :: "string option \<Rightarrow> string option \<Rightarrow> string option" where
  "js_or a b = (if truthy a then a else b)"

text \<open>\<^verbatim>\<open>/spdy/.test(protocol)\<close>: the string contains \<open>spdy\<close> somewhere.\<close>

fun regex_spdy_test :: "string \<Rightarrow> bool" where
  "regex_spdy_test [] = False"
| "regex_spdy_test (c # cs) = (take 4 (c # cs) = ''spdy'' \<or> regex_spdy_test cs)"

text \<open>
  An options object is a list of keys and values. \<^verbatim>\<open>util._extend(origin, add)\<close> assigns
  every key of \<open>add\<close> on \<open>origin\<close>, last key first, and returns \<open>origin\<close>: a key of
  \<open>add\<close> overrides the same key of \<open>origin\<close>.
\<close>

datatype js_value = JString string | JBool bool | JNumber rat

type_synonym js_object = "(string \<times> js_value) list"

fun assign :: "js_object \<Rightarrow> string \<Rightarrow> js_value \<Rightarrow> js_object" where
  "assign [] k v = [(k, v)]"
| "assign ((k', v') # rest) k v =
     (if k' = k then (k, v) # rest else (k', v') # assign rest k v)"

definition util_extend :: "js_object \<Rightarrow> js_object \<Rightarrow> js_object" where
  "util_extend origin add = foldr (\<lambda>(k, v) obj. assign obj k v) add origin"

datatype js_error = TypeError

subsection \<open>Sockets, streams, requests and the server's state\<close>

text \<open>
  A logical stream of the session engine; \<open>connection_version\<close> is what
  \<^verbatim>\<open>stream.connection.getVersion()\<close> reports.
\<close>

record stream =
  stream_id :: nat
  connection_version :: "rat option"

text \<open>
  Modelled from the spec: the handle of lib/spdy/handle.js, which is not part of the
  source files; it wraps exactly one logical stream (section 3). The \<^verbatim>\<open>_handle\<close> of
  a socket is an instance of \<^verbatim>\<open>spdy.handle\<close> created for a stream
  (\<^verbatim>\<open>spdy.handle.create(stream)\<close>, whose \<^verbatim>\<open>getStream()\<close> is that stream), or anything
  else.
\<close>

datatype handle_obj = SpdyHandle stream | NativeHandle

text \<open>The fields of a \<^verbatim>\<open>net.Socket\<close> (raw or adapter) that the server reads or writes.\<close>

record net_socket =
  sock_id :: nat
  npnProtocol :: "string option"
  alpnProtocol :: "string option"
  handle :: handle_obj
  allowHalfOpen :: bool
  encrypted :: bool
  readable :: bool
  writable :: bool

text \<open>What \<^verbatim>\<open>res.writeHead\<close>, \<^verbatim>\<open>res.end\<close> and \<^verbatim>\<open>res.push\<close> refer to.\<close>

datatype fn_ref =
    Builtin_fn
  | Undefined_fn
  | spdy_response_writeHead
  | spdy_response_end
  | spdy_response_push

record request =
  req_socket :: net_socket
  req_connection :: net_socket
  isSpdy :: "bool option"
  spdyVersion :: "rat option"

record response =
  writeHead :: fn_ref
  res_end :: fn_ref
  push :: fn_ref

text \<open>
  \<^verbatim>\<open>state.options\<close> (\<^verbatim>\<open>options.spdy || {}\<close>): \<^verbatim>\<open>plain\<close> by its truthiness,
  \<^verbatim>\<open>protocol\<close>, and \<^verbatim>\<open>connection\<close> (\<open>None\<close> when it is not given).
\<close>

record spdy_options =
  opt_plain :: bool
  opt_protocol :: "string option"
  opt_connection :: "js_object option"

text \<open>
  \<^verbatim>\<open>this._spdyState\<close> as \<^verbatim>\<open>_init\<close> leaves it: \<open>secure\<close> is
  \<^verbatim>\<open>this instanceof tls.Server\<close>, \<open>listeners\<close> the saved default connection handlers
  in their registration order (each named by a number).
\<close>

record server_state =
  options :: spdy_options
  secure :: bool
  listeners :: "nat list"

text \<open>
  What the server does to the world, in the order it does it: the calls it makes on its
  collaborators. A socket, request or response in an event is the object as it is at
  the moment of the call.
\<close>

datatype event =
    Debug string
  | Debug_incoming "string option"
  | Listener_call nat net_socket
  | Connection_create net_socket js_object
  | Connection_start rat
  | Connection_on_error net_socket
  | Connection_on_stream
  | Socket_destroy net_socket
  | Hose_create net_socket
  | Handle_create stream
  | Handle_assignSocket stream net_socket
  | Handle_emitRequest stream
  | Handle_assignRequest stream request
  | Handle_assignResponse stream response
  | Emitter_emit string request response

text \<open>
  \<open>Debug_incoming p\<close> is \<^verbatim>\<open>debug('incoming socket protocol=%j', protocol)\<close>;
  \<open>Listener_call i s\<close> is \<^verbatim>\<open>state.listeners[i].call(this, socket)\<close>;
  \<open>Connection_on_error s\<close> is
  \<^verbatim>\<open>connection.on('error', function() { socket.destroy(); })\<close> with \<open>s\<close> the socket the
  closure holds; \<open>Connection_on_stream\<close> is
  \<^verbatim>\<open>connection.on('stream', function(stream) { self._onStream(stream); })\<close>;
  \<open>Emitter_emit\<close> is \<^verbatim>\<open>EventEmitter.prototype.emit.apply(this, arguments)\<close>.
\<close>

subsection \<open>The connection handlers\<close>

definition invokeDefault :: "server_state \<Rightarrow> net_socket \<Rightarrow> event list" where
  "invokeDefault state socket = map (\<lambda>l. Listener_call l socket) (listeners state)"

text \<open>
  Lines 94-95 of \<^verbatim>\<open>_handleConnection\<close>:
  \<^verbatim>\<open>if (!protocol) protocol = state.options.protocol;\<close>
\<close>

definition resolve_protocol :: "server_state \<Rightarrow> string option \<Rightarrow> string option" where
  "resolve_protocol state protocol0 =
     (if \<not> truthy protocol0 then opt_protocol (options state) else protocol0)"

definition handleConnection :: "server_state \<Rightarrow> net_socket \<Rightarrow> string option \<Rightarrow> event list" where
  "handleConnection state socket protocol0 =
     (let protocol = resolve_protocol state protocol0
      in Debug_incoming protocol #
         (case protocol of
            None \<Rightarrow> Debug ''to default handler it goes'' # invokeDefault state socket
          | Some p \<Rightarrow>
              if p = [] \<or> p = ''http/1.1'' \<or> p = ''http/1.0'' then
                Debug ''to default handler it goes'' # invokeDefault state socket
              else
                [Connection_create socket
                   (util_extend
                      [(''protocol'', JString (if regex_spdy_test p then ''spdy'' else ''http2'')),
                       (''isServer'', JBool True)]
                      (case opt_connection (options state) of None \<Rightarrow> [] | Some c \<Rightarrow> c))]
                @ (if p = ''http2'' then [Connection_start 4]
                   else if p = ''spdy/3.1'' then [Connection_start 3.1]
                   else if p = ''spdy/3'' then [Connection_start 3]
                   else if p = ''spdy/2'' then [Connection_start 2]
                   else [])
                @ [Connection_on_error socket, Connection_on_stream]))"

definition onConnection :: "server_state \<Rightarrow> net_socket \<Rightarrow> event list" where
  "onConnection state socket =
     (let protocol = (if secure state then js_or (npnProtocol socket) (alpnProtocol socket)
                      else None)
      in handleConnection state socket protocol)"

text \<open>What a socket receives: a chunk of bytes, or its end.\<close>

datatype sock_input = Data "byte list" | End

datatype hose_result = Select string | HoseError | HosePending

text \<open>
  Modelled from the spec: the peeking buffer that \<^verbatim>\<open>selectHose.create\<close> layers ahead of
  the socket; the select-hose package is not part of the source files. By sections 4.1
  and 4.6 the sniffer is invoked each time more bytes arrive, each time on the cumulative
  buffer from byte zero, until it gives a definitive label, which the hose announces with
  the socket (\<open>select\<close>); a connection that closes before that, or a filter error, is an
  error of the hose. \<open>HosePending\<close>: the bytes so far settle nothing.
\<close>

fun hose :: "byte list \<Rightarrow> sock_input list \<Rightarrow> hose_result" where
  "hose buffer [] = HosePending"
| "hose buffer (End # rest) = HoseError"
| "hose buffer (Data chunk # rest) =
     (case hoseFilter (buffer @ chunk) of
        (Some err, _) \<Rightarrow> HoseError
      | (None, None) \<Rightarrow> hose (buffer @ chunk) rest
      | (None, Some p) \<Rightarrow> if p = [] then hose (buffer @ chunk) rest else Select p)"

definition onPlainConnection ::
  "server_state \<Rightarrow> net_socket \<Rightarrow> sock_input list \<Rightarrow> event list" where
  "onPlainConnection state socket input =
     Hose_create socket #
     (case hose [] input of
        Select protocol \<Rightarrow> handleConnection state socket (Some protocol)
      | HoseError \<Rightarrow> [Debug ''hose error %j'', Socket_destroy socket]
      | HosePending \<Rightarrow> [])"

text \<open>
  The listener \<^verbatim>\<open>_init\<close> registers for the server's connection event (lines 70-73):
  \<^verbatim>\<open>_onPlainConnection\<close> when \<^verbatim>\<open>state.options.plain\<close> is set, \<^verbatim>\<open>_onConnection\<close>
  otherwise. \<open>input\<close> is what the socket then receives.
\<close>

definition connection_listener ::
  "server_state \<Rightarrow> net_socket \<Rightarrow> sock_input list \<Rightarrow> event list" where
  "connection_listener state socket input =
     (if opt_plain (options state) then onPlainConnection state socket input
      else onConnection state socket)"

text \<open>
  \<^verbatim>\<open>_onStream\<close>. \<open>fresh\<close> is the object \<^verbatim>\<open>new net.Socket\<close> allocates, before the
  constructor's options and the assignments of lines 181-187 are applied to it.
\<close>

definition onStream :: "server_state \<Rightarrow> stream \<Rightarrow> net_socket \<Rightarrow> event list" where
  "onStream state stream fresh =
     (let socket0 = fresh\<lparr>handle := SpdyHandle stream, allowHalfOpen := True\<rparr>;
          socket1 = socket0\<lparr>encrypted := True\<rparr>;
          socket2 = socket1\<lparr>readable := True, writable := True\<rparr>
      in [Handle_create stream, Handle_assignSocket stream socket1]
         @ invokeDefault state socket2
         @ [Handle_emitRequest stream])"

text \<open>
  \<^verbatim>\<open>emit\<close>. For an event other than \<open>request\<close> the arguments go to the emitter as
  they are. Reading \<^verbatim>\<open>getStream\<close> off a \<^verbatim>\<open>req.connection._handle\<close> that is no
  \<^verbatim>\<open>spdy.handle\<close> throws.
\<close>

definition emit :: "string \<Rightarrow> request \<Rightarrow> response \<Rightarrow> js_error + event list" where
  "emit ev req res =
     (if ev \<noteq> ''request'' then Inr [Emitter_emit ev req res]
      else
        (case handle (req_socket req) of
           NativeHandle \<Rightarrow>
             (let req1 = req\<lparr>isSpdy := Some False, spdyVersion := Some 1\<rparr>
              in Inr [Debug ''not spdy req/res'', Emitter_emit ev req1 res])
         | SpdyHandle _ \<Rightarrow>
             (case handle (req_connection req) of
                NativeHandle \<Rightarrow> Inl TypeError
              | SpdyHandle stream \<Rightarrow>
                  (let req1 = req\<lparr>isSpdy := Some True,
                                   spdyVersion := connection_version stream\<rparr>;
                       res1 = res\<lparr>writeHead := spdy_response_writeHead,
                                   res_end := spdy_response_end,
                                   push := spdy_response_push\<rparr>
                   in Inr [Debug ''override req/res'',
                           Handle_assignRequest stream req1,
                           Handle_assignResponse stream res1,
                           Emitter_emit ev req1 res1]))))"

subsection \<open>What a trace shows\<close>

text \<open>
  The session engine raising \<open>error\<close> on a connection runs the error observers
  registered on it, in the order of their registration: each is the closure of line
  120, whose body destroys the socket it holds.
\<close>

fun connection_emit_error :: "event list \<Rightarrow> event list" where
  "connection_emit_error [] = []"
| "connection_emit_error (Connection_on_error s # tr) = Socket_destroy s # connection_emit_error tr"
| "connection_emit_error (e # tr) = connection_emit_error tr"

text \<open>The identifiers logged as governing, the versions pinned, the sessions built.\<close>

fun governing :: "event list \<Rightarrow> string option list" where
  "governing [] = []"
| "governing (Debug_incoming p # tr) = p # governing tr"
| "governing (e # tr) = governing tr"

fun pinned :: "event list \<Rightarrow> rat list" where
  "pinned [] = []"
| "pinned (Connection_start v # tr) = v # pinned tr"
| "pinned (e # tr) = pinned tr"

fun sessions :: "event list \<Rightarrow> (net_socket \<times> js_object) list" where
  "sessions [] = []"
| "sessions (Connection_create s opts # tr) = (s, opts) # sessions tr"
| "sessions (e # tr) = sessions tr"

fun sniffer_invoked :: "event list \<Rightarrow> bool" where
  "sniffer_invoked [] = False"
| "sniffer_invoked (Hose_create s # tr) = True"
| "sniffer_invoked (e # tr) = sniffer_invoked tr"

fun listener_calls :: "event list \<Rightarrow> (nat \<times> net_socket) list" where
  "listener_calls [] = []"
| "listener_calls (Listener_call l s # tr) = (l, s) # listener_calls tr"
| "listener_calls (e # tr) = listener_calls tr"

subsection \<open>The resolver's rule order, as the specification words it\<close>

text \<open>
  Section 4.2, as a predicate on what the connection listener does: a next-protocol
  result on a secured connection governs, and nothing is sniffed; otherwise a configured
  default governs, and nothing is sniffed; only otherwise, and on a plaintext connection,
  is the sniffer invoked, and its definitive result governs.
\<close>

definition rule_order_claim :: "server_state \<Rightarrow> net_socket \<Rightarrow> sock_input list \<Rightarrow> bool" where
  "rule_order_claim state socket input =
     (let tr = connection_listener state socket input;
          negotiated = js_or (npnProtocol socket) (alpnProtocol socket);
          dflt = opt_protocol (options state)
      in if secure state \<and> truthy negotiated then
           governing tr = [negotiated] \<and> \<not> sniffer_invoked tr
         else if truthy dflt then
           governing tr = [dflt] \<and> \<not> sniffer_invoked tr
         else
           sniffer_invoked tr \<longrightarrow>
             \<not> secure state \<and>
             governing tr = (case hose [] input of Select p \<Rightarrow> [Some p] | _ \<Rightarrow> []))"

subsection \<open>Example inputs\<close>

text \<open>A TLS server with two default handlers, and a plaintext-sniffing server whose
  options name \<open>spdy/3.1\<close> as the default protocol.\<close>

definition example_tls_server :: server_state where
  "example_tls_server =
     \<lparr>options = \<lparr>opt_plain = False, opt_protocol = None, opt_connection = None\<rparr>,
      secure = True, listeners = [0, 1]\<rparr>"

definition example_plain_server :: server_state where
  "example_plain_server =
     \<lparr>options = \<lparr>opt_plain = True, opt_protocol = Some ''spdy/3.1'', opt_connection = None\<rparr>,
      secure = False, listeners = [0]\<rparr>"

text \<open>A raw socket on which nothing was negotiated, and one that negotiated \<open>h2\<close>.\<close>

definition example_socket :: net_socket where
  "example_socket =
     \<lparr>sock_id = 7, npnProtocol = None, alpnProtocol = None, handle = NativeHandle,
      allowHalfOpen = False, encrypted = False, readable = False, writable = False\<rparr>"

definition example_h2_socket :: net_socket where
  "example_h2_socket = example_socket\<lparr>alpnProtocol := Some ''h2'', encrypted := True\<rparr>"

definition example_stream :: stream where
  "example_stream = \<lparr>stream_id = 1, connection_version = Some 3.1\<rparr>"

text \<open>The first bytes of \<^verbatim>\<open>GET / HTTP/1.1\<close>.\<close>

definition example_GET :: "byte list" where
  "example_GET = [0x47, 0x45, 0x54, 0x20, 0x2F, 0x20, 0x48, 0x54, 0x54, 0x50]"

definition example_request :: request where
  "example_request =
     \<lparr>req_socket = example_socket, req_connection = example_socket,
      isSpdy = None, spdyVersion = None\<rparr>"

definition example_response :: response where
  "example_response = \<lparr>writeHead = Builtin_fn, res_end = Builtin_fn, push = Undefined_fn\<rparr>"

text \<open>A request that arrived on the adapter of \<open>example_stream\<close>.\<close>

definition example_spdy_request :: request where
  "example_spdy_request =
     \<lparr>req_socket = example_socket\<lparr>handle := SpdyHandle example_stream\<rparr>,
      req_connection = example_socket\<lparr>handle := SpdyHandle example_stream\<rparr>,
      isSpdy = None, spdyVersion = None\<rparr>"

subsection \<open>Facts about the sniffer\<close>

lemma PREFACE_BUFFER_bytes:
  "PREFACE_BUFFER =
     [0x50, 0x52, 0x49, 0x20, 0x2A, 0x20, 0x48, 0x54, 0x54, 0x50, 0x2F, 0x32, 0x2E, 0x30,
      0x0D, 0x0A, 0x0D, 0x0A, 0x53, 0x4D, 0x0D, 0x0A, 0x0D, 0x0A]"
  by (simp add: PREFACE_BUFFER_def PREFACE_def)

lemma length_PREFACE_BUFFER: "length PREFACE_BUFFER = 24"
  by (simp add: PREFACE_BUFFER_bytes)

text \<open>
  C4. A non-empty buffer whose first byte is the marker 0x80 is classified as
  \<open>spdy\<close> at once, whatever follows and without any comparison against the preface.
\<close>

theorem hoseFilter_spdy_marker:
  "data \<noteq> [] \<Longrightarrow> data ! 0 = 0x80 \<Longrightarrow> hoseFilter data = (None, Some ''spdy'')"
  by (simp add: hoseFilter_def)

theorem hoseFilter_spdy_marker_witness:
  "hoseFilter [0x80, 0x03, 0x00, 0x01] = (None, Some ''spdy'')"
  using hoseFilter_spdy_marker [of "[0x80, 0x03, 0x00, 0x01]"] by simp

text \<open>
  The loop falls through exactly when every compared position agrees with the preface,
  and when it returns early it returns \<open>http/1.1\<close>.
\<close>

lemma preface_loop_None_iff:
  "preface_loop data avail i = None \<longleftrightarrow>
     (\<forall>k. i \<le> k \<and> k < avail \<longrightarrow> data ! k = PREFACE_BUFFER ! k)"
proof (induction data avail i rule: preface_loop.induct)
  case (1 data avail i)
  show ?case
  proof (cases "i < avail")
    case False
    then show ?thesis by (auto simp: preface_loop.simps [of data avail i])
  next
    case True
    show ?thesis
    proof (cases "data ! i = PREFACE_BUFFER ! i")
      case False
      with True show ?thesis
        by (auto simp: preface_loop.simps [of data avail i])
    next
      case eq: True
      have "(\<forall>k. i \<le> k \<and> k < avail \<longrightarrow> data ! k = PREFACE_BUFFER ! k)
              \<longleftrightarrow> (\<forall>k. Suc i \<le> k \<and> k < avail \<longrightarrow> data ! k = PREFACE_BUFFER ! k)"
        using eq by (metis Suc_leI le_neq_implies_less Suc_leD)
      with True eq "1.IH" show ?thesis
        by (simp add: preface_loop.simps [of data avail i])
    qed
  qed
qed

lemma preface_loop_result:
  "preface_loop data avail i = Some r \<Longrightarrow> r = (None, Some ''http/1.1'')"
proof (induction data avail i rule: preface_loop.induct)
  case (1 data avail i)
  then show ?case
    by (simp add: preface_loop.simps [of data avail i] split: if_splits)
qed

lemma preface_loop_mismatch:
  assumes "i \<le> k" "k < avail" "data ! k \<noteq> PREFACE_BUFFER ! k"
  shows "preface_loop data avail i = Some (None, Some ''http/1.1'')"
proof -
  have "preface_loop data avail i \<noteq> None"
    using assms by (auto simp: preface_loop_None_iff)
  then obtain r where "preface_loop data avail i = Some r" by auto
  then show ?thesis using preface_loop_result by blast
qed

text \<open>
  C3. Let \<open>data\<close> be the bytes a connection sends, differing from the preface at
  position \<open>k\<close> (a position of the preface), with a first byte other than 0x80. As soon
  as \<open>k + 1\<close> bytes are available, and on every longer buffer \<open>take n data\<close> with
  \<open>k < n\<close>, the sniffer answers \<open>http/1.1\<close>: it never asks for more bytes there.
\<close>

theorem hoseFilter_divergence:
  assumes "k < length data" "k < length PREFACE_BUFFER"
    and "data ! k \<noteq> PREFACE_BUFFER ! k" and "data ! 0 \<noteq> 0x80" and "k < n"
  shows "hoseFilter (take n data) = (None, Some ''http/1.1'')"
proof -
  define d where "d = take n data"
  have len: "k < length d" using assms by (simp add: d_def)
  have k: "d ! k \<noteq> PREFACE_BUFFER ! k" using assms by (simp add: d_def)
  have z: "d ! 0 \<noteq> 0x80" using assms by (simp add: d_def)
  have "preface_loop d (min (length d) (length PREFACE_BUFFER)) 0
          = Some (None, Some ''http/1.1'')"
    by (rule preface_loop_mismatch [of 0 k]) (use assms len k in auto)
  then have "hoseFilter d = (None, Some ''http/1.1'')"
    using len z by (auto simp: hoseFilter_def Let_def)
  then show ?thesis by (simp add: d_def)
qed

text \<open>
  The bytes of \<open>PRI * HTTP/1.1\<close> leave the preface at position 11; the first twelve
  bytes are enough.
\<close>

theorem hoseFilter_divergence_witness:
  "hoseFilter (take 12 [0x50, 0x52, 0x49, 0x20, 0x2A, 0x20, 0x48, 0x54, 0x54, 0x50, 0x2F,
      0x31, 0x2E, 0x31]) = (None, Some ''http/1.1'')"
  using hoseFilter_divergence [of 11 "[0x50, 0x52, 0x49, 0x20, 0x2A, 0x20, 0x48, 0x54, 0x54,
      0x50, 0x2F, 0x31, 0x2E, 0x31]" 12]
  by (simp add: PREFACE_BUFFER_bytes)

text \<open>
  C5. When every available byte agrees with the preface at its position, the sniffer
  answers \<open>(null, null)\<close> (need more bytes) as long as fewer bytes than the preface
  length are available, the empty buffer included, and \<open>h2\<close> once the full preface
  length has been accumulated.
\<close>

theorem hoseFilter_preface_prefix:
  assumes "\<forall>i. i < length data \<and> i < length PREFACE_BUFFER \<longrightarrow> data ! i = PREFACE_BUFFER ! i"
  shows "hoseFilter data =
           (if length data < length PREFACE_BUFFER then (None, None) else (None, Some ''h2''))"
proof (cases "data = []")
  case True
  then show ?thesis by (simp add: hoseFilter_def length_PREFACE_BUFFER)
next
  case False
  then have "data ! 0 = PREFACE_BUFFER ! 0"
    using assms by (simp add: length_PREFACE_BUFFER)
  then have nz: "data ! 0 \<noteq> 0x80" by (simp add: PREFACE_BUFFER_bytes)
  have "preface_loop data (min (length data) (length PREFACE_BUFFER)) 0 = None"
    using assms by (simp add: preface_loop_None_iff)
  then show ?thesis
    using False nz by (auto simp: hoseFilter_def Let_def)
qed

text \<open>The preface sent in two writes: ten bytes first, then the rest.\<close>

theorem hoseFilter_preface_prefix_witness:
  "hoseFilter (take 10 PREFACE_BUFFER) = (None, None) \<and>
   hoseFilter (take 10 PREFACE_BUFFER @ drop 10 PREFACE_BUFFER) = (None, Some ''h2'')"
  using hoseFilter_preface_prefix [of "take 10 PREFACE_BUFFER"]
    hoseFilter_preface_prefix [of "take 10 PREFACE_BUFFER @ drop 10 PREFACE_BUFFER"]
  by (simp add: length_PREFACE_BUFFER)

subsection \<open>Facts about traces\<close>

lemma hoseFilter_range:
  "hoseFilter data \<in>
     {(None, None), (None, Some ''spdy''), (None, Some ''http/1.1''), (None, Some ''h2'')}"
proof (cases "preface_loop data (min (length data) (length PREFACE_BUFFER)) 0")
  case None
  then show ?thesis by (simp add: hoseFilter_def Let_def)
next
  case (Some r)
  then have "r = (None, Some ''http/1.1'')" by (rule preface_loop_result)
  with Some show ?thesis by (simp add: hoseFilter_def Let_def)
qed

text \<open>Whatever the hose selects is one of the sniffer's three labels, so it is truthy.\<close>

lemma hose_Select:
  "hose buffer input = Select p \<Longrightarrow> p = ''spdy'' \<or> p = ''http/1.1'' \<or> p = ''h2''"
proof (induction buffer input rule: hose.induct)
  case (1 buffer)
  then show ?case by simp
next
  case (2 buffer rest)
  then show ?case by simp
next
  case (3 buffer chunk rest)
  show ?case
    using hoseFilter_range [of "buffer @ chunk"] "3.prems" "3.IH"
    by (auto split: if_splits)
qed

lemma listener_calls_append:
  "listener_calls (xs @ ys) = listener_calls xs @ listener_calls ys"
  by (induction xs rule: listener_calls.induct) auto

lemma listener_calls_map:
  "listener_calls (map (\<lambda>l. Listener_call l s) ls) = map (\<lambda>l. (l, s)) ls"
  by (induction ls) auto

lemma sessions_map: "sessions (map (\<lambda>l. Listener_call l s) ls) = []"
  by (induction ls) auto

lemma connection_emit_error_append:
  "connection_emit_error (xs @ ys) = connection_emit_error xs @ connection_emit_error ys"
  by (induction xs rule: connection_emit_error.induct) auto

lemma connection_emit_error_map:
  "connection_emit_error (map (\<lambda>l. Listener_call l s) ls) = []"
  by (induction ls) auto

lemma sniffer_invoked_append:
  "sniffer_invoked (xs @ ys) = (sniffer_invoked xs \<or> sniffer_invoked ys)"
  by (induction xs rule: sniffer_invoked.induct) auto

lemma sniffer_invoked_map: "\<not> sniffer_invoked (map (\<lambda>l. Listener_call l s) ls)"
  by (induction ls) auto

lemma governing_append: "governing (xs @ ys) = governing xs @ governing ys"
  by (induction xs rule: governing.induct) auto

lemma governing_map: "governing (map (\<lambda>l. Listener_call l s) ls) = []"
  by (induction ls) auto

lemma governing_handleConnection:
  "governing (handleConnection state socket protocol) = [resolve_protocol state protocol]"
  by (simp add: handleConnection_def Let_def invokeDefault_def governing_append governing_map
      split: option.splits)

lemma sniffer_invoked_handleConnection:
  "\<not> sniffer_invoked (handleConnection state socket protocol)"
  by (simp add: handleConnection_def Let_def invokeDefault_def sniffer_invoked_append
      sniffer_invoked_map split: option.splits)

text \<open>
  The versions \<^verbatim>\<open>_handleConnection\<close> pins when it builds a session: the comparison is on
  the identifier, not on the family handed to the session engine.
\<close>

lemma handleConnection_pinned:
  assumes "resolve_protocol state protocol = Some p"
    and "p \<noteq> []" "p \<noteq> ''http/1.1''" "p \<noteq> ''http/1.0''"
  shows "pinned (handleConnection state socket protocol) =
           (if p = ''http2'' then [4]
            else if p = ''spdy/3.1'' then [3.1]
            else if p = ''spdy/3'' then [3]
            else if p = ''spdy/2'' then [2]
            else [])"
  using assms by (simp add: handleConnection_def Let_def)

subsection \<open>The session bootstrapper\<close>

text \<open>
  C1, at the identifier \<open>h2\<close>. A secured connection that negotiated \<open>h2\<close> gets a
  session of the family \<open>http2\<close>, and no version is pinned on it: line 111 compares
  the identifier with \<open>http2\<close>, the name of the family, where the identifier of the
  protocol list (line 42) and of the sniffer (line 151) is \<open>h2\<close>.
\<close>

theorem h2_session_not_pinned:
  "sessions (connection_listener example_tls_server example_h2_socket []) =
     [(example_h2_socket, [(''protocol'', JString ''http2''), (''isServer'', JBool True)])] \<and>
   pinned (connection_listener example_tls_server example_h2_socket []) = []"
  by (simp add: connection_listener_def onConnection_def handleConnection_def Let_def
      resolve_protocol_def js_or_def truthy_def util_extend_def
      example_tls_server_def example_h2_socket_def example_socket_def)

text \<open>
  C6. When the resolved identifier is falsy, \<open>http/1.1\<close> or \<open>http/1.0\<close>, the
  server builds no session: it logs, and calls every saved default handler with the raw
  socket as it received it, in the order the handlers were registered.
\<close>

theorem passthrough_to_default_handlers:
  assumes "\<not> truthy (resolve_protocol state protocol)
           \<or> resolve_protocol state protocol = Some ''http/1.1''
           \<or> resolve_protocol state protocol = Some ''http/1.0''"
  shows "handleConnection state socket protocol =
           Debug_incoming (resolve_protocol state protocol) #
           Debug ''to default handler it goes'' #
           map (\<lambda>l. Listener_call l socket) (listeners state)
         \<and> sessions (handleConnection state socket protocol) = []
         \<and> listener_calls (handleConnection state socket protocol) =
             map (\<lambda>l. (l, socket)) (listeners state)"
proof -
  have tr: "handleConnection state socket protocol =
              Debug_incoming (resolve_protocol state protocol) #
              Debug ''to default handler it goes'' #
              map (\<lambda>l. Listener_call l socket) (listeners state)"
    using assms
    by (auto simp: handleConnection_def Let_def truthy_def invokeDefault_def
        split: option.splits if_splits)
  show ?thesis
    by (simp add: tr sessions_map listener_calls_map)
qed

theorem passthrough_to_default_handlers_witness:
  "handleConnection example_tls_server example_socket (Some ''http/1.1'') =
     [Debug_incoming (Some ''http/1.1''), Debug ''to default handler it goes'',
      Listener_call 0 example_socket, Listener_call 1 example_socket]
   \<and> sessions (handleConnection example_tls_server example_socket None) = []
   \<and> listener_calls (handleConnection example_tls_server example_socket None) =
       [(0, example_socket), (1, example_socket)]"
  using passthrough_to_default_handlers [of example_tls_server "Some ''http/1.1''" example_socket]
    passthrough_to_default_handlers [of example_tls_server None example_socket]
  by (simp add: resolve_protocol_def truthy_def example_tls_server_def)

text \<open>
  C9. Whenever \<^verbatim>\<open>_handleConnection\<close> builds a session, it builds it on the raw socket it
  was given, and a session-level error then does one thing: it destroys that socket.
\<close>

theorem session_error_destroys_socket:
  assumes "(s, opts) \<in> set (sessions (handleConnection state socket protocol))"
  shows "s = socket \<and>
         connection_emit_error (handleConnection state socket protocol) = [Socket_destroy socket]"
  using assms
  by (auto simp: handleConnection_def Let_def invokeDefault_def sessions_map
      connection_emit_error_append connection_emit_error_map split: option.splits if_splits)

theorem session_error_destroys_socket_witness:
  "connection_emit_error (handleConnection example_tls_server example_socket (Some ''spdy/3'')) =
     [Socket_destroy example_socket]"
  using session_error_destroys_socket [of example_socket
      "[(''protocol'', JString ''spdy''), (''isServer'', JBool True)]"
      example_tls_server example_socket "Some ''spdy/3''"]
  by (simp add: handleConnection_def Let_def resolve_protocol_def truthy_def util_extend_def
      example_tls_server_def)

subsection \<open>The negotiation resolver\<close>

text \<open>
  C2 fails on a plaintext-sniffing server with a configured default: the connection is
  not secured and the default \<open>spdy/3.1\<close> exists, yet the sniffer is invoked and its
  answer \<open>http/1.1\<close> governs.
\<close>

theorem resolver_rule_order_counterexample:
  "\<not> rule_order_claim example_plain_server example_socket [Data example_GET] \<and>
   \<not> secure example_plain_server \<and>
   opt_protocol (options example_plain_server) = Some ''spdy/3.1'' \<and>
   sniffer_invoked (connection_listener example_plain_server example_socket [Data example_GET]) \<and>
   governing (connection_listener example_plain_server example_socket [Data example_GET]) =
     [Some ''http/1.1'']"
proof -
  have f: "hoseFilter example_GET = (None, Some ''http/1.1'')"
    by (simp add: hoseFilter_def example_GET_def length_PREFACE_BUFFER Let_def
        preface_loop.simps [of _ _ 0] PREFACE_BUFFER_bytes)
  have tr: "connection_listener example_plain_server example_socket [Data example_GET] =
              [Hose_create example_socket, Debug_incoming (Some ''http/1.1''),
               Debug ''to default handler it goes'', Listener_call 0 example_socket]"
    by (simp add: connection_listener_def onPlainConnection_def f handleConnection_def Let_def
        resolve_protocol_def truthy_def invokeDefault_def example_plain_server_def)
  have g: "governing (connection_listener example_plain_server example_socket
              [Data example_GET]) = [Some ''http/1.1'']"
    by (simp add: tr)
  have s: "sniffer_invoked (connection_listener example_plain_server example_socket
              [Data example_GET])"
    by (simp add: tr)
  have sec: "\<not> secure example_plain_server"
    by (simp add: example_plain_server_def)
  have d: "opt_protocol (options example_plain_server) = Some ''spdy/3.1''"
    by (simp add: example_plain_server_def)
  show ?thesis
    by (simp add: rule_order_claim_def Let_def g s sec d truthy_def)
qed

text \<open>
  C2, amended. Which rule applies depends on the mode of the server. Without
  \<^verbatim>\<open>options.plain\<close> nothing is ever sniffed: a next-protocol result on a secure server
  governs, and otherwise the configured default does (when there is none, the identifier
  is undetermined). With \<^verbatim>\<open>options.plain\<close> the sniffer is invoked on every connection,
  whatever was negotiated or configured, and its definitive result governs.
\<close>

theorem resolver_rule_order_by_mode:
  "(\<not> opt_plain (options state) \<longrightarrow>
      \<not> sniffer_invoked (connection_listener state socket input) \<and>
      governing (connection_listener state socket input) =
        [if secure state \<and> truthy (js_or (npnProtocol socket) (alpnProtocol socket))
         then js_or (npnProtocol socket) (alpnProtocol socket)
         else opt_protocol (options state)])
   \<and> (opt_plain (options state) \<longrightarrow>
      sniffer_invoked (connection_listener state socket input) \<and>
      governing (connection_listener state socket input) =
        (case hose [] input of
           Select p \<Rightarrow> [Some p]
         | HoseError \<Rightarrow> []
         | HosePending \<Rightarrow> []))"
proof (intro conjI impI)
  assume np: "\<not> opt_plain (options state)"
  show "\<not> sniffer_invoked (connection_listener state socket input)"
    using np
    by (simp add: connection_listener_def onConnection_def Let_def
        sniffer_invoked_handleConnection)
  show "governing (connection_listener state socket input) =
        [if secure state \<and> truthy (js_or (npnProtocol socket) (alpnProtocol socket))
         then js_or (npnProtocol socket) (alpnProtocol socket)
         else opt_protocol (options state)]"
    using np
    by (simp add: connection_listener_def onConnection_def Let_def
        governing_handleConnection resolve_protocol_def truthy_def)
next
  assume p: "opt_plain (options state)"
  show "sniffer_invoked (connection_listener state socket input)"
    using p by (simp add: connection_listener_def onPlainConnection_def)
  show "governing (connection_listener state socket input) =
        (case hose [] input of
           Select p \<Rightarrow> [Some p]
         | HoseError \<Rightarrow> []
         | HosePending \<Rightarrow> [])"
  proof (cases "hose [] input")
    case (Select q)
    then have "truthy (Some q)"
      using hose_Select [OF Select] by (auto simp: truthy_def)
    then show ?thesis
      using p Select
      by (simp add: connection_listener_def onPlainConnection_def
          governing_handleConnection resolve_protocol_def)
  next
    case HoseError
    then show ?thesis
      using p by (simp add: connection_listener_def onPlainConnection_def)
  next
    case HosePending
    then show ?thesis
      using p by (simp add: connection_listener_def onPlainConnection_def)
  qed
qed

theorem resolver_rule_order_by_mode_witness:
  "\<not> sniffer_invoked (connection_listener example_tls_server example_h2_socket []) \<and>
   governing (connection_listener example_tls_server example_h2_socket []) = [Some ''h2''] \<and>
   sniffer_invoked (connection_listener example_plain_server example_socket [Data [0x80]]) \<and>
   governing (connection_listener example_plain_server example_socket [Data [0x80]]) =
     [Some ''spdy'']"
  using resolver_rule_order_by_mode [of example_tls_server example_h2_socket "[]"]
    resolver_rule_order_by_mode [of example_plain_server example_socket "[Data [0x80]]"]
  by (simp add: example_tls_server_def example_plain_server_def example_h2_socket_def
      example_socket_def js_or_def truthy_def hoseFilter_def)

subsection \<open>The stream-socket adapter\<close>

text \<open>
  C7. In \<^verbatim>\<open>_onStream\<close> the signal that the stream's buffered data is ready
  (\<^verbatim>\<open>emitRequest\<close>) is sent, and before it every default handler has been called, in
  order, with the adapter of this stream; none is called at or after the signal. The
  adapter each handler receives is readable and writable, whatever the constructor left
  in those fields.
\<close>

theorem adapter_registered_before_emitRequest:
  "Handle_emitRequest stream \<in> set (onStream state stream fresh) \<and>
   map fst (listener_calls
     (takeWhile (\<lambda>e. e \<noteq> Handle_emitRequest stream) (onStream state stream fresh))) =
       listeners state \<and>
   listener_calls
     (dropWhile (\<lambda>e. e \<noteq> Handle_emitRequest stream) (onStream state stream fresh)) = [] \<and>
   (\<forall>c \<in> set (listener_calls (onStream state stream fresh)).
      handle (snd c) = SpdyHandle stream \<and> readable (snd c) \<and> writable (snd c))"
proof -
  have before: "takeWhile (\<lambda>e. e \<noteq> Handle_emitRequest stream)
            (map (\<lambda>l. Listener_call l s) ls @ [Handle_emitRequest stream]) =
          map (\<lambda>l. Listener_call l s) ls" for s ls
    by (induction ls) auto
  have after: "dropWhile (\<lambda>e. e \<noteq> Handle_emitRequest stream)
            (map (\<lambda>l. Listener_call l s) ls @ [Handle_emitRequest stream]) =
          [Handle_emitRequest stream]" for s ls
    by (induction ls) auto
  show ?thesis
    by (simp add: onStream_def Let_def invokeDefault_def before after
        listener_calls_append listener_calls_map comp_def)
qed

theorem adapter_registered_before_emitRequest_witness:
  "listener_calls (onStream example_tls_server example_stream example_socket) =
     [(0, example_socket\<lparr>handle := SpdyHandle example_stream, allowHalfOpen := True,
         encrypted := True, readable := True, writable := True\<rparr>),
      (1, example_socket\<lparr>handle := SpdyHandle example_stream, allowHalfOpen := True,
         encrypted := True, readable := True, writable := True\<rparr>)] \<and>
   map fst (listener_calls (takeWhile (\<lambda>e. e \<noteq> Handle_emitRequest example_stream)
     (onStream example_tls_server example_stream example_socket))) = [0, 1] \<and>
   last (onStream example_tls_server example_stream example_socket) =
     Handle_emitRequest example_stream"
  using adapter_registered_before_emitRequest [of example_stream example_tls_server example_socket]
  by (simp add: onStream_def Let_def invokeDefault_def example_tls_server_def)

text \<open>
  C10. The adapter \<^verbatim>\<open>_onStream\<close> builds has its encrypted flag set, whatever the server's
  state: \<^verbatim>\<open>state.secure\<close> is not consulted, so this holds on a plaintext server as well.
\<close>

theorem adapter_encrypted_unconditionally:
  "(\<forall>c \<in> set (listener_calls (onStream state stream fresh)). encrypted (snd c)) \<and>
   (\<forall>s. Handle_assignSocket stream s \<in> set (onStream state stream fresh) \<longrightarrow> encrypted s)"
  by (auto simp: onStream_def Let_def invokeDefault_def listener_calls_append
      listener_calls_map)

theorem adapter_encrypted_unconditionally_witness:
  "\<not> secure example_plain_server \<and> \<not> encrypted example_socket \<and>
   map (\<lambda>c. encrypted (snd c))
     (listener_calls (onStream example_plain_server example_stream example_socket)) = [True]"
  using adapter_encrypted_unconditionally [of example_plain_server example_stream example_socket]
  by (simp add: onStream_def Let_def invokeDefault_def example_plain_server_def
      example_socket_def)

subsection \<open>The request/response shim\<close>

text \<open>
  C8. For a \<open>request\<close> event: when the handle of the request's socket is no
  \<^verbatim>\<open>spdy.handle\<close>, the request is marked \<open>isSpdy = false\<close>, \<open>spdyVersion = 1\<close> and
  the pair is delivered with nothing else changed. When it is the handle of a stream
  (\<^verbatim>\<open>req.connection\<close> being \<^verbatim>\<open>req.socket\<close>, as in Node), the request is marked
  \<open>isSpdy = true\<close> with the version the session reports, \<open>writeHead\<close>, \<open>end\<close> and
  \<open>push\<close> of the response are replaced, and the handle is given the request and the
  response before the pair is delivered.
\<close>

theorem emit_request_shim:
  "(handle (req_socket req) = NativeHandle \<longrightarrow>
      emit ''request'' req res =
        Inr [Debug ''not spdy req/res'',
             Emitter_emit ''request'' (req\<lparr>isSpdy := Some False, spdyVersion := Some 1\<rparr>) res])
   \<and> (handle (req_socket req) = SpdyHandle stream \<and> req_connection req = req_socket req \<longrightarrow>
      emit ''request'' req res =
        Inr [Debug ''override req/res'',
             Handle_assignRequest stream
               (req\<lparr>isSpdy := Some True, spdyVersion := connection_version stream\<rparr>),
             Handle_assignResponse stream
               (res\<lparr>writeHead := spdy_response_writeHead, res_end := spdy_response_end,
                    push := spdy_response_push\<rparr>),
             Emitter_emit ''request''
               (req\<lparr>isSpdy := Some True, spdyVersion := connection_version stream\<rparr>)
               (res\<lparr>writeHead := spdy_response_writeHead, res_end := spdy_response_end,
                    push := spdy_response_push\<rparr>)])"
  by (auto simp: emit_def Let_def)

theorem emit_request_shim_witness:
  "emit ''request'' example_request example_response =
     Inr [Debug ''not spdy req/res'',
          Emitter_emit ''request''
            (example_request\<lparr>isSpdy := Some False, spdyVersion := Some 1\<rparr>) example_response]
   \<and> emit ''request'' example_spdy_request example_response =
     Inr [Debug ''override req/res'',
          Handle_assignRequest example_stream
            (example_spdy_request\<lparr>isSpdy := Some True, spdyVersion := Some 3.1\<rparr>),
          Handle_assignResponse example_stream
            \<lparr>writeHead = spdy_response_writeHead, res_end = spdy_response_end,
             push = spdy_response_push\<rparr>,
          Emitter_emit ''request''
            (example_spdy_request\<lparr>isSpdy := Some True, spdyVersion := Some 3.1\<rparr>)
            \<lparr>writeHead = spdy_response_writeHead, res_end = spdy_response_end,
             push = spdy_response_push\<rparr>]"
  using emit_request_shim [of example_request example_response example_stream]
    emit_request_shim [of example_spdy_request example_response example_stream]
  by (simp add: example_request_def example_spdy_request_def example_response_def
      example_socket_def example_stream_def)

end
